theory Spec2Isabelle
  imports Main "HOL-Library.Char_ord" "HOL-Library.List_Lexorder"
begin

section \<open>The image-selection controller of the MCU etcher\<close>

text \<open>
  A shallow embedding of \<^verbatim>\<open>lib/gui/pages/main/controllers/image-selection.js\<close>.
  The controller object (\<^verbatim>\<open>this\<close>) is a record that every method takes and returns;
  calls into other modules (IPC, analytics, dialogs, the console) are recorded as a list
  of effects in the order the code performs them; a JavaScript exception is the left
  summand of a sum type.
\<close>

subsection \<open>JavaScript values\<close>

text \<open>
  The values the controller's fields and the release JSON can hold: \<^verbatim>\<open>null\<close>,
  \<^verbatim>\<open>undefined\<close>, a string or a boolean.
\<close>

datatype jsval = Null | Undefined | Str string | Bool bool

text \<open>JavaScript's ToBoolean: the test of \<^verbatim>\<open>if (v)\<close> and of \<^verbatim>\<open>v && w\<close>.\<close>

fun truthy :: "jsval \<Rightarrow> bool" where
  "truthy Null = False"
| "truthy Undefined = False"
| "truthy (Str s) = (s \<noteq> [])"
| "truthy (Bool b) = b"

text \<open>JavaScript's ToString: what \<^verbatim>\<open>"Download " + v\<close> appends.\<close>

fun to_string :: "jsval \<Rightarrow> string" where
  "to_string Null = ''null''"
| "to_string Undefined = ''undefined''"
| "to_string (Str s) = s"
| "to_string (Bool b) = (if b then ''true'' else ''false'')"

datatype exn = TypeError | InvalidVersion | ReaddirError | ModalRejected

subsection \<open>The controller's fields\<close>

record ctrl =
  downloading :: bool
  availableVersion :: jsval
  currentVersion :: jsval

text \<open>Lines 40 to 42: the fields as the constructor sets them.\<close>

definition init_ctrl :: ctrl where
  "init_ctrl = \<lparr>downloading = False, availableVersion = Null, currentVersion = Null\<rparr>"

definition isDownloading :: "ctrl \<Rightarrow> bool" where
  "isDownloading s = downloading s"

subsection \<open>downloadPrompt and updateAvailable\<close>

definition downloadPrompt :: "ctrl \<Rightarrow> string" where
  "downloadPrompt s =
     (if downloading s then ''Downloading...''
      else ''Download '' @ to_string (availableVersion s))"

text \<open>
  \<^verbatim>\<open>semver.compare\<close> belongs to the npm package semver, not to this repository: it is a
  parameter \<open>cmp\<close>, which returns the sign of the comparison or throws on a string that
  is not a version. \<^verbatim>\<open>&&\<close> evaluates its right operand only when the left one is
  truthy, so \<open>cmp\<close> is called only on two truthy operands.
\<close>

type_synonym compare = "jsval \<Rightarrow> jsval \<Rightarrow> exn + int"

definition updateAvailable :: "compare \<Rightarrow> ctrl \<Rightarrow> exn + bool" where
  "updateAvailable cmp s =
     (if truthy (availableVersion s) \<and> truthy (currentVersion s)
      then (case cmp (availableVersion s) (currentVersion s) of
              Inl e \<Rightarrow> Inl e
            | Inr n \<Rightarrow> Inr (n > 0))
      else Inr False)"

subsection \<open>The firmware file-name pattern\<close>

text \<open>
  The regular expression of line 218, \<^verbatim>\<open>/^mcu_v\d+\.\d+\.\d+\.img\.zip$/\<close>, is a
  sequence of literal characters and of \<^verbatim>\<open>\d+\<close> items between the anchors
  \<^verbatim>\<open>^\<close> and \<^verbatim>\<open>$\<close>. Without the \<^verbatim>\<open>u\<close> and \<^verbatim>\<open>m\<close> flags, \<^verbatim>\<open>\d\<close> is one of
  the ten ASCII digits and \<^verbatim>\<open>$\<close> is the end of the input. \<open>matches\<close> is the
  backtracking matcher for such a sequence: \<^verbatim>\<open>\d+\<close> takes one digit and then either
  goes on taking digits or hands over to the rest of the pattern.
\<close>

datatype item = Chr char | Digits

definition is_digit :: "char \<Rightarrow> bool" where
  "is_digit c = (c \<in> set ''0123456789'')"

fun matches :: "item list \<Rightarrow> string \<Rightarrow> bool" where
  "matches [] s = (s = [])"
| "matches (Chr c # p) [] = False"
| "matches (Chr c # p) (x # xs) = (x = c \<and> matches p xs)"
| "matches (Digits # p) [] = False"
| "matches (Digits # p) (x # xs) =
     (is_digit x \<and> (matches (Digits # p) xs \<or> matches p xs))"

definition mcu_pattern :: "item list" where
  "mcu_pattern =
     map Chr ''mcu_v'' @ [Digits, Chr (CHR ''.''), Digits, Chr (CHR ''.''), Digits]
       @ map Chr ''.img.zip''"

definition is_mcu_image :: "string \<Rightarrow> bool" where
  "is_mcu_image file = matches mcu_pattern file"

text \<open>
  The naming convention as the specification words it, to compare the matcher with: the
  file name is \<^verbatim>\<open>mcu_v<major>.<minor>.<patch>.img.zip\<close>, each component a non-empty
  run of digits.
\<close>

definition firmware_name :: "string \<Rightarrow> bool" where
  "firmware_name file =
     (\<exists>major minor patch.
        major \<noteq> [] \<and> list_all is_digit major \<and>
        minor \<noteq> [] \<and> list_all is_digit minor \<and>
        patch \<noteq> [] \<and> list_all is_digit patch \<and>
        file = ''mcu_v'' @ major @ ''.'' @ minor @ ''.'' @ patch @ ''.img.zip'')"

text \<open>
  \<^verbatim>\<open>String.prototype.replace\<close> with a string pattern replaces the first occurrence of
  the pattern only (the replacement used in the code is the empty string, which has none
  of the special \<^verbatim>\<open>$\<close> sequences).
\<close>

fun js_replace :: "string \<Rightarrow> string \<Rightarrow> string \<Rightarrow> string" where
  "js_replace pat rep [] = (if pat = [] then rep else [])"
| "js_replace pat rep (c # cs) =
     (if take (length pat) (c # cs) = pat then rep @ drop (length pat) (c # cs)
      else c # js_replace pat rep cs)"

text \<open>
  Line 218: filter, \<^verbatim>\<open>sort()\<close> (the default comparison of strings, by code units:
  the lexicographic order of \<open>char list\<close>) and \<^verbatim>\<open>reverse()\<close>. A directory entry is
  a \<open>string\<close>, whose characters are 8-bit; the entries that pass the filter, which are
  all that is sorted, are ASCII.
\<close>

definition mcuImages :: "string list \<Rightarrow> string list" where
  "mcuImages dirs = rev (sort (filter is_mcu_image dirs))"

text \<open>Line 223: the version recorded for a firmware file.\<close>

definition latestDownload :: "string \<Rightarrow> string" where
  "latestDownload file = js_replace ''.img.zip'' [] (js_replace ''mcu_'' [] file)"

subsection \<open>The collaborators\<close>

record image =
  path :: string
  hasMBR :: bool
  logo :: jsval
  bmap :: jsval

text \<open>
  The release JSON of the GitHub endpoint: \<open>None\<close> is the \<^verbatim>\<open>null\<close> that the
  \<^verbatim>\<open>catch\<close> of line 205 returns when the request or the parsing fails; \<open>assets\<close> is
  \<open>None\<close> when the reply has no such member.
\<close>

record asset =
  browser_download_url :: jsval

record release =
  tag_name :: jsval
  assets :: "asset list option"

type_synonym reply = "release option"

text \<open>The argument of the \<^verbatim>\<open>download-mcu\<close> message from the main process.\<close>

record download_result =
  error :: jsval
  imagePath :: string

text \<open>
  What the controller takes from modules outside this file: the semver comparison, the
  downloads directory and \<^verbatim>\<open>path.join\<close>, the supported-formats registry and the two
  warning texts of the messages module.
\<close>

record env =
  semver_compare :: compare
  downloads_path :: string
  path_join :: "string \<Rightarrow> string \<Rightarrow> string"
  isSupportedImage :: "string \<Rightarrow> bool"
  looksLikeWindowsImage :: "string \<Rightarrow> bool"
  warn_looksLikeWindowsImage :: string
  warn_missingPartitionTable :: string
  getAllExtensions :: "string list"

text \<open>
  Modelled from the spec: the selection-state store (\<^verbatim>\<open>shared/models/selection-state\<close>)
  is not among the sources. Section 6 of the specification gives it \<^verbatim>\<open>getImage\<close> and
  \<^verbatim>\<open>setImage\<close>, the latter replacing any prior selection as a whole.
\<close>

type_synonym store = "image option"

definition getImage :: "store \<Rightarrow> image option" where
  "getImage st = st"

definition setImage :: "image \<Rightarrow> store \<Rightarrow> store" where
  "setImage img st = Some img"

text \<open>The calls that leave the controller, in the order they are made.\<close>

datatype effect =
    IpcSend string jsval
  | SelectImageByPath string
  | CheckForNewImage bool
  | ConsoleError exn
  | ShowError string image
  | LogEvent string "image option"
  | DisplayModal string string string
  | ReportException exn

subsection \<open>checkForNewImage\<close>

text \<open>
  The model is the callback of line 208, which runs when the request of a call
  \<^verbatim>\<open>checkForNewImage(allowDownload)\<close> has settled: \<open>json\<close> is the reply and
  \<open>readdir\<close> the outcome of \<^verbatim>\<open>fs.readdirSync\<close> on the downloads directory (its
  entries, or the exception it throws). The callback runs to its end without
  interruption, as every JavaScript callback does. Every exception inside the
  \<^verbatim>\<open>try\<close> block ends the block at the statement that throws and is written to the
  console by the \<^verbatim>\<open>catch\<close> of line 237.
\<close>

text \<open>Line 235: the argument \<^verbatim>\<open>json.assets[0].browser_download_url\<close>.\<close>

definition asset_url :: "reply \<Rightarrow> exn + jsval" where
  "asset_url json =
     (case json of
        None \<Rightarrow> Inl TypeError
      | Some r \<Rightarrow>
          (case assets r of
             None \<Rightarrow> Inl TypeError
           | Some [] \<Rightarrow> Inl TypeError
           | Some (a # _) \<Rightarrow> Inr (browser_download_url a)))"

definition checkForNewImage ::
  "env \<Rightarrow> bool \<Rightarrow> reply \<Rightarrow> exn + string list \<Rightarrow> ctrl \<Rightarrow> ctrl \<times> effect list" where
  "checkForNewImage env allowDownload json readdir s =
     (let s1 = (case json of
                  None \<Rightarrow> s
                | Some r \<Rightarrow>
                    (case assets r of
                       None \<Rightarrow> s
                     | Some as \<Rightarrow>
                         if length as > 0 then s\<lparr>availableVersion := tag_name r\<rparr> else s))
      in case readdir of
           Inl ex \<Rightarrow> (s1, [ConsoleError ex])
         | Inr dirs \<Rightarrow>
             (let imgs = mcuImages dirs;
                  s2 = (case imgs of
                          [] \<Rightarrow> s1
                        | f # _ \<Rightarrow> s1\<lparr>currentVersion := Str (latestDownload f)\<rparr>)
              in case (case imgs of
                         [] \<Rightarrow> Inr True
                       | f # _ \<Rightarrow> updateAvailable (semver_compare env) s2) of
                   Inl ex \<Rightarrow> (s2, [ConsoleError ex])
                 | Inr newImageAvailable \<Rightarrow>
                     (let sel = (case imgs of
                                   [] \<Rightarrow> []
                                 | f # _ \<Rightarrow>
                                     [SelectImageByPath
                                        (path_join env (downloads_path env) f)])
                      in if newImageAvailable \<and> allowDownload
                         then (case asset_url json of
                                 Inl ex \<Rightarrow>
                                   (s2\<lparr>downloading := True\<rparr>, sel @ [ConsoleError ex])
                               | Inr url \<Rightarrow>
                                   (s2\<lparr>downloading := True\<rparr>,
                                    sel @ [IpcSend ''download-mcu'' url]))
                         else (s2, sel))))"

text \<open>
  Lines 47 to 53: the handler of the \<^verbatim>\<open>download-mcu\<close> message. \<^verbatim>\<open>arg.error == null\<close>
  holds for \<^verbatim>\<open>null\<close> and \<^verbatim>\<open>undefined\<close>. The call \<^verbatim>\<open>checkForNewImage()\<close> it makes
  only starts a request; its callback is a later \<open>checkForNewImage env False\<close>.
\<close>

definition onDownloadMcu :: "download_result \<Rightarrow> ctrl \<Rightarrow> ctrl \<times> effect list" where
  "onDownloadMcu arg s =
     (let s1 = s\<lparr>downloading := False\<rparr>
      in if error arg = Null \<or> error arg = Undefined
         then (s1, [SelectImageByPath (imagePath arg), CheckForNewImage False])
         else (s1, []))"

text \<open>
  The callbacks that reach the controller, and a run of the event loop over a list of
  them: the state is threaded through and the effects are collected in order.
\<close>

datatype event =
    Reply bool reply "exn + string list"
  | DownloadMcu download_result

fun step :: "env \<Rightarrow> event \<Rightarrow> ctrl \<Rightarrow> ctrl \<times> effect list" where
  "step env (Reply allowDownload json readdir) s =
     checkForNewImage env allowDownload json readdir s"
| "step env (DownloadMcu arg) s = onDownloadMcu arg s"

fun run :: "env \<Rightarrow> event list \<Rightarrow> ctrl \<Rightarrow> ctrl \<times> effect list" where
  "run env [] s = (s, [])"
| "run env (ev # evs) s =
     (case step env ev s of
        (s1, es1) \<Rightarrow> (case run env evs s1 of (s2, es2) \<Rightarrow> (s2, es1 @ es2)))"

text \<open>The download requests among a list of effects.\<close>

fun is_download_request :: "effect \<Rightarrow> bool" where
  "is_download_request (IpcSend channel url) = (channel = ''download-mcu'')"
| "is_download_request _ = False"

definition download_requests :: "effect list \<Rightarrow> effect list" where
  "download_requests es = filter is_download_request es"

subsection \<open>selectImage\<close>

text \<open>
  Lines 293 to 299. \<^verbatim>\<open>openImageSelector\<close> is commented out (lines 262 to 283) and
  assigned nowhere, so the call of line 298 throws a TypeError after the analytics
  event: \<open>reselectImage\<close> returns the effects it had and the exception it ends with.
\<close>

definition reselectImage :: "store \<Rightarrow> effect list \<times> (exn + unit)" where
  "reselectImage st = ([LogEvent ''Reselect image'' (getImage st)], Inl TypeError)"

text \<open>Lines 109 to 117: the warning, if any, and the analytics event that goes with it.\<close>

definition warning_message :: "env \<Rightarrow> image \<Rightarrow> string option \<times> effect list" where
  "warning_message env img =
     (if looksLikeWindowsImage env (path img)
      then (Some (warn_looksLikeWindowsImage env),
            [LogEvent ''Possibly Windows image'' (Some img)])
      else if \<not> hasMBR img
      then (Some (warn_missingPartitionTable env),
            [LogEvent ''Missing partition table'' (Some img)])
      else (None, []))"

text \<open>
  \<open>modal\<close> is what the promise of \<^verbatim>\<open>WarningModalService.display\<close> settles to, should
  the modal be shown: the user's answer, or a rejection. \<^verbatim>\<open>if (message)\<close> is false for
  \<^verbatim>\<open>null\<close> and for the empty string. An exception anywhere in the promise chain, the
  one of \<open>reselectImage\<close> included, reaches the \<^verbatim>\<open>catch\<close> of line 143, which hands it
  to the exception reporter.
\<close>

definition selectImage :: "env \<Rightarrow> exn + bool \<Rightarrow> image \<Rightarrow> store \<Rightarrow> store \<times> effect list" where
  "selectImage env modal img st =
     (if \<not> isSupportedImage env (path img)
      then (st, [ShowError ''Invalid image'' img, LogEvent ''Invalid image'' (Some img)])
      else
        (case warning_message env img of
           (message, es) \<Rightarrow>
             (case (case message of
                      None \<Rightarrow> (Inr False, [])
                    | Some m \<Rightarrow>
                        if m \<noteq> [] then (modal, [DisplayModal ''Change'' ''Continue'' m])
                        else (Inr False, [])) of
                (Inl ex, ds) \<Rightarrow> (st, es @ ds @ [ReportException ex])
              | (Inr shouldChange, ds) \<Rightarrow>
                  if shouldChange
                  then (case reselectImage st of
                          (rs, Inl ex) \<Rightarrow> (st, es @ ds @ rs @ [ReportException ex])
                        | (rs, Inr _) \<Rightarrow> (st, es @ ds @ rs))
                  else (setImage img st,
                        es @ ds @
                        [LogEvent ''Select image''
                           (Some (img\<lparr>logo := Bool (truthy (logo img)),
                                       bmap := Bool (truthy (bmap img))\<rparr>))]))))"

text \<open>The modals among a list of effects.\<close>

fun is_modal :: "effect \<Rightarrow> bool" where
  "is_modal (DisplayModal c r d) = True"
| "is_modal _ = False"

subsection \<open>The published extension lists\<close>

text \<open>
  lodash's \<^verbatim>\<open>_.intersection\<close> keeps, in the order of the first array and once each, the
  values of the first array that are in the second; \<^verbatim>\<open>_.difference\<close> keeps, in order,
  the values of the first array that are not in the second.
\<close>

definition uniq :: "'a list \<Rightarrow> 'a list" where
  "uniq xs = rev (remdups (rev xs))"

definition intersection :: "'a list \<Rightarrow> 'a list \<Rightarrow> 'a list" where
  "intersection xs ys = uniq (filter (\<lambda>x. x \<in> set ys) xs)"

definition difference :: "'a list \<Rightarrow> 'a list \<Rightarrow> 'a list" where
  "difference xs ys = filter (\<lambda>x. x \<notin> set ys) xs"

definition mainSupportedExtensions :: "env \<Rightarrow> string list" where
  "mainSupportedExtensions env =
     intersection [''img'', ''iso'', ''zip''] (getAllExtensions env)"

definition extraSupportedExtensions :: "env \<Rightarrow> string list" where
  "extraSupportedExtensions env =
     sort (difference (getAllExtensions env) (mainSupportedExtensions env))"

subsection \<open>A sample environment\<close>

text \<open>
  The theorems below hold for every environment. Their instances at concrete inputs
  need one: \<open>sample_compare\<close> stands in for \<^verbatim>\<open>semver.compare\<close> on versions of the form
  \<^verbatim>\<open>M.m.p\<close> with an optional leading \<^verbatim>\<open>v\<close> (which semver strips), each component a
  decimal number without a leading zero and at most \<^verbatim>\<open>Number.MAX_SAFE_INTEGER\<close>
  (sixteen digits, compared as a string of that length), as semver requires. It throws on every other operand: on those that semver rejects as
  well, and on versions with a pre-release or build tag, which semver accepts and
  this stand-in does not cover. The theorems use it on plain \<^verbatim>\<open>vM.m.p\<close> versions only.
\<close>

fun split_dots :: "string \<Rightarrow> string list" where
  "split_dots [] = [[]]"
| "split_dots (c # cs) =
     (if c = CHR ''.'' then [] # split_dots cs
      else (case split_dots cs of [] \<Rightarrow> [[c]] | w # ws \<Rightarrow> (c # w) # ws))"

definition number :: "string \<Rightarrow> nat option" where
  "number ds =
     (if ds \<noteq> [] \<and> list_all is_digit ds \<and>
         (length ds = 1 \<or> take 1 ds \<noteq> ''0'') \<and>
         (length ds < 16 \<or> (length ds = 16 \<and> ds \<le> ''9007199254740991''))
      then Some (foldl (\<lambda>n c. 10 * n + (of_char c - 48)) 0 ds)
      else None)"

definition parse_version :: "jsval \<Rightarrow> (nat \<times> nat \<times> nat) option" where
  "parse_version v =
     (case v of
        Str s \<Rightarrow>
          (case split_dots (if take 1 s = ''v'' then drop 1 s else s) of
             [a, b, c] \<Rightarrow>
               (case (number a, number b, number c) of
                  (Some x, Some y, Some z) \<Rightarrow> Some (x, y, z)
                | _ \<Rightarrow> None)
           | _ \<Rightarrow> None)
      | _ \<Rightarrow> None)"

definition sample_compare :: compare where
  "sample_compare a b =
     (case (parse_version a, parse_version b) of
        (Some (x1, y1, z1), Some (x2, y2, z2)) \<Rightarrow>
          Inr (if x1 < x2 \<or> (x1 = x2 \<and> (y1 < y2 \<or> (y1 = y2 \<and> z1 < z2))) then - 1
               else if x1 = x2 \<and> y1 = y2 \<and> z1 = z2 then 0
               else 1)
      | _ \<Rightarrow> Inl InvalidVersion)"

definition sample_env :: env where
  "sample_env =
     \<lparr>semver_compare = sample_compare,
      downloads_path = ''/home/user/Downloads'',
      path_join = (\<lambda>dir file. dir @ ''/'' @ file),
      isSupportedImage = (\<lambda>p. drop (length p - 4) p \<in> set [''.img'', ''.iso'', ''.zip'']),
      looksLikeWindowsImage = (\<lambda>p. take 3 p = ''win''),
      warn_looksLikeWindowsImage = ''looks like a Windows image'',
      warn_missingPartitionTable = ''missing partition table'',
      getAllExtensions = [''zip'', ''gz'', ''img'', ''bz2'', ''iso'', ''dmg'']\<rparr>"

text \<open>
  A release \<^verbatim>\<open>v1.3.0\<close> with one asset, and a downloads directory that holds the
  firmware \<^verbatim>\<open>1.2.0\<close>.
\<close>

definition sample_release :: reply where
  "sample_release =
     Some \<lparr>tag_name = Str ''v1.3.0'',
           assets = Some [\<lparr>browser_download_url =
                             Str ''https://example.org/mcu_v1.3.0.img.zip''\<rparr>]\<rparr>"

definition sample_dirs :: "exn + string list" where
  "sample_dirs = Inr [''notes.txt'', ''mcu_v1.2.0.img.zip'']"

section \<open>Properties\<close>

subsection \<open>The file-name pattern\<close>

lemma matches_literal:
  "matches (map Chr lit @ p) s = (\<exists>r. s = lit @ r \<and> matches p r)"
proof (induction lit arbitrary: s)
  case Nil
  show ?case by simp
next
  case (Cons c lit)
  show ?case
  proof (cases s)
    case Nil
    then show ?thesis by simp
  next
    case (Cons x xs)
    then show ?thesis using Cons.IH [of xs] by auto
  qed
qed

lemma matches_only_literal: "matches (map Chr lit) s = (s = lit)"
  using matches_literal [of lit "[]" s] by auto

lemma matches_Chr:
  "matches (Chr c # p) s = (\<exists>r. s = c # r \<and> matches p r)"
  by (cases s) auto

lemma matches_Digits:
  "matches (Digits # p) s =
     (\<exists>ds r. ds \<noteq> [] \<and> list_all is_digit ds \<and> s = ds @ r \<and> matches p r)"
proof (induction s)
  case Nil
  show ?case by simp
next
  case (Cons x xs)
  show ?case
  proof
    assume m: "matches (Digits # p) (x # xs)"
    then have d: "is_digit x" by simp
    from m consider "matches (Digits # p) xs" | "matches p xs" by auto
    then show "\<exists>ds r. ds \<noteq> [] \<and> list_all is_digit ds \<and> x # xs = ds @ r \<and> matches p r"
    proof cases
      case 1
      with Cons.IH obtain ds r where
        "ds \<noteq> []" "list_all is_digit ds" "xs = ds @ r" "matches p r" by blast
      with d have "x # ds \<noteq> [] \<and> list_all is_digit (x # ds) \<and>
          x # xs = (x # ds) @ r \<and> matches p r"
        by simp
      then show ?thesis by blast
    next
      case 2
      with d have "[x] \<noteq> [] \<and> list_all is_digit [x] \<and> x # xs = [x] @ xs \<and> matches p xs"
        by simp
      then show ?thesis by blast
    qed
  next
    assume "\<exists>ds r. ds \<noteq> [] \<and> list_all is_digit ds \<and> x # xs = ds @ r \<and> matches p r"
    then obtain ds r where
      ds: "ds \<noteq> []" "list_all is_digit ds" "x # xs = ds @ r" "matches p r"
      by blast
    then obtain es where es: "ds = x # es" by (cases ds) auto
    with ds have x: "is_digit x" and xs: "xs = es @ r" and esd: "list_all is_digit es"
      by auto
    show "matches (Digits # p) (x # xs)"
    proof (cases es)
      case Nil
      with xs ds x show ?thesis by simp
    next
      case (Cons e es')
      with esd xs ds have "matches (Digits # p) xs" using Cons.IH by blast
      with x show ?thesis by simp
    qed
  qed
qed

text \<open>The matcher unfolded along the pattern, one item at a time.\<close>

lemma is_mcu_image_unfolded:
  "is_mcu_image file =
     (\<exists>r1. file = ''mcu_v'' @ r1 \<and>
       (\<exists>a r2. a \<noteq> [] \<and> list_all is_digit a \<and> r1 = a @ r2 \<and>
         (\<exists>r3. r2 = CHR ''.'' # r3 \<and>
           (\<exists>b r4. b \<noteq> [] \<and> list_all is_digit b \<and> r3 = b @ r4 \<and>
             (\<exists>r5. r4 = CHR ''.'' # r5 \<and>
               (\<exists>c r6. c \<noteq> [] \<and> list_all is_digit c \<and> r5 = c @ r6 \<and>
                  r6 = ''.img.zip''))))))"
  unfolding is_mcu_image_def mcu_pattern_def
  apply (subst matches_literal)
  apply (simp only: append_Cons append_Nil)
  apply (subst matches_Digits)
  apply (subst matches_Chr)
  apply (subst matches_Digits)
  apply (subst matches_Chr)
  apply (subst matches_Digits)
  apply (subst matches_only_literal)
  apply (rule refl)
  done

lemma is_mcu_image_firmware_name:
  assumes "is_mcu_image file"
  shows "firmware_name file"
proof -
  from assms [unfolded is_mcu_image_unfolded] obtain r1 a r2 r3 b r4 r5 c r6 where
    "file = ''mcu_v'' @ r1" "a \<noteq> []" "list_all is_digit a" "r1 = a @ r2"
    "r2 = CHR ''.'' # r3" "b \<noteq> []" "list_all is_digit b" "r3 = b @ r4"
    "r4 = CHR ''.'' # r5" "c \<noteq> []" "list_all is_digit c" "r5 = c @ r6"
    "r6 = ''.img.zip''"
    by (elim exE conjE)
  then have "a \<noteq> [] \<and> list_all is_digit a \<and> b \<noteq> [] \<and> list_all is_digit b \<and>
      c \<noteq> [] \<and> list_all is_digit c \<and>
      file = ''mcu_v'' @ a @ ''.'' @ b @ ''.'' @ c @ ''.img.zip''"
    by simp
  then show ?thesis
    unfolding firmware_name_def by (intro exI)
qed

lemma firmware_name_is_mcu_image:
  assumes "firmware_name file"
  shows "is_mcu_image file"
proof -
  from assms obtain a b c where abc:
    "a \<noteq> []" "list_all is_digit a" "b \<noteq> []" "list_all is_digit b"
    "c \<noteq> []" "list_all is_digit c"
    and feq: "file = ''mcu_v'' @ a @ ''.'' @ b @ ''.'' @ c @ ''.img.zip''"
    unfolding firmware_name_def by (elim exE conjE)
  show ?thesis
    unfolding is_mcu_image_unfolded
    apply (rule exI [of _ "a @ ''.'' @ b @ ''.'' @ c @ ''.img.zip''"])
    apply (rule conjI, rule feq)
    apply (rule exI [of _ a], rule exI [of _ "''.'' @ b @ ''.'' @ c @ ''.img.zip''"])
    apply (intro conjI abc refl)
    apply (rule exI [of _ "b @ ''.'' @ c @ ''.img.zip''"])
    apply (rule conjI, simp)
    apply (rule exI [of _ b], rule exI [of _ "''.'' @ c @ ''.img.zip''"])
    apply (intro conjI abc refl)
    apply (rule exI [of _ "c @ ''.img.zip''"])
    apply (rule conjI, simp)
    apply (rule exI [of _ c], rule exI [of _ "''.img.zip''"])
    apply (intro conjI abc refl)
    done
qed

lemma is_mcu_image_iff: "is_mcu_image file = firmware_name file"
  using is_mcu_image_firmware_name firmware_name_is_mcu_image by (rule iffI)

subsection \<open>The version cut out of a file name\<close>

lemma skip_digits:
  "list_all is_digit ds \<Longrightarrow>
   js_replace ''.img.zip'' [] (ds @ s) = ds @ js_replace ''.img.zip'' [] s"
  by (induction ds) (auto simp: is_digit_def)

lemma skip_dot_digit:
  "is_digit d \<Longrightarrow>
   js_replace ''.img.zip'' [] (CHR ''.'' # d # s) =
   CHR ''.'' # js_replace ''.img.zip'' [] (d # s)"
  by (auto simp: is_digit_def)

lemma skip_dot_digits:
  assumes "ds \<noteq> []" and "list_all is_digit ds"
  shows "js_replace ''.img.zip'' [] (''.'' @ ds @ s) =
         ''.'' @ ds @ js_replace ''.img.zip'' [] s"
proof -
  from assms obtain d es where des: "ds = d # es" by (cases ds) auto
  with assms have d: "is_digit d" by simp
  have "js_replace ''.img.zip'' [] (''.'' @ ds @ s) =
        CHR ''.'' # js_replace ''.img.zip'' [] (ds @ s)"
    using skip_dot_digit [OF d, of "es @ s"] des by simp
  then show ?thesis using skip_digits [OF assms(2), of s] by simp
qed

lemma latestDownload_firmware:
  assumes "a \<noteq> []" "list_all is_digit a" "b \<noteq> []" "list_all is_digit b"
    "c \<noteq> []" "list_all is_digit c"
  shows "latestDownload (''mcu_v'' @ a @ ''.'' @ b @ ''.'' @ c @ ''.img.zip'')
         = ''v'' @ a @ ''.'' @ b @ ''.'' @ c"
proof -
  have 1: "js_replace ''mcu_'' [] (''mcu_v'' @ r) = ''v'' @ r" for r
    by simp
  have 2: "js_replace ''.img.zip'' [] (''v'' @ r) = ''v'' @ js_replace ''.img.zip'' [] r" for r
    by simp
  have 3: "js_replace ''.img.zip'' [] ''.img.zip'' = []"
    by simp
  show ?thesis
    unfolding latestDownload_def 1 2 skip_digits [OF assms(2)]
      skip_dot_digits [OF assms(3,4)] skip_dot_digits [OF assms(5,6)] 3
    by simp
qed

subsection \<open>The newest file\<close>




subsection \<open>updateAvailable and downloadPrompt\<close>

text \<open>
  C2. \<open>updateAvailable\<close> returns true if and only if the available and the current
  version are both present (neither \<^verbatim>\<open>null\<close>, \<^verbatim>\<open>undefined\<close> nor the empty string) and
  the semver comparison of the available version against the current one yields a
  positive sign; it returns false whenever one of the two is absent, and false when the
  comparison yields equal or less.
\<close>

theorem updateAvailable_iff:
  "((updateAvailable cmp s = Inr True) =
      (truthy (availableVersion s) \<and> truthy (currentVersion s) \<and>
       (\<exists>n. cmp (availableVersion s) (currentVersion s) = Inr n \<and> n > 0))) \<and>
   (availableVersion s \<in> {Null, Undefined, Str []} \<or>
    currentVersion s \<in> {Null, Undefined, Str []} \<longrightarrow>
      updateAvailable cmp s = Inr False) \<and>
   (\<forall>n. cmp (availableVersion s) (currentVersion s) = Inr n \<and> n \<le> 0 \<longrightarrow>
      updateAvailable cmp s = Inr False)"
  by (auto simp: updateAvailable_def split: sum.splits)

theorem updateAvailable_iff_witness:
  "truthy (Str ''v1.3.0'') \<and> truthy (Str ''v1.2.0'') \<and>
   sample_compare (Str ''v1.3.0'') (Str ''v1.2.0'') = Inr 1 \<and>
   updateAvailable sample_compare
     \<lparr>downloading = False, availableVersion = Str ''v1.3.0'',
      currentVersion = Str ''v1.2.0''\<rparr> = Inr True \<and>
   updateAvailable sample_compare
     \<lparr>downloading = False, availableVersion = Null,
      currentVersion = Str ''v1.2.0''\<rparr> = Inr False \<and>
   sample_compare (Str ''v1.2.0'') (Str ''v1.2.0'') = Inr 0 \<and>
   updateAvailable sample_compare
     \<lparr>downloading = False, availableVersion = Str ''v1.2.0'',
      currentVersion = Str ''v1.2.0''\<rparr> = Inr False"
proof -
  have gt: "sample_compare (Str ''v1.3.0'') (Str ''v1.2.0'') = Inr 1"
    by code_simp
  have eq: "sample_compare (Str ''v1.2.0'') (Str ''v1.2.0'') = Inr 0"
    by code_simp
  show ?thesis
    using gt eq
      updateAvailable_iff [of sample_compare
        "\<lparr>downloading = False, availableVersion = Str ''v1.3.0'',
          currentVersion = Str ''v1.2.0''\<rparr>"]
      updateAvailable_iff [of sample_compare
        "\<lparr>downloading = False, availableVersion = Null,
          currentVersion = Str ''v1.2.0''\<rparr>"]
      updateAvailable_iff [of sample_compare
        "\<lparr>downloading = False, availableVersion = Str ''v1.2.0'',
          currentVersion = Str ''v1.2.0''\<rparr>"]
    by simp
qed

text \<open>
  C4, as the claim states it, fails: with no version known, \<open>availableVersion\<close> is the
  \<^verbatim>\<open>null\<close> of line 41, and the prompt of the freshly constructed controller is
  \<^verbatim>\<open>Download null\<close>, not \<^verbatim>\<open>Download\<close> with an empty suffix.
\<close>

theorem downloadPrompt_unset_counterexample:
  "\<not> downloading init_ctrl \<and> availableVersion init_ctrl = Null \<and>
   downloadPrompt init_ctrl = ''Download null'' \<and>
   downloadPrompt init_ctrl \<noteq> ''Download ''"
  by (simp add: downloadPrompt_def init_ctrl_def)

text \<open>
  C4, amended. \<open>downloadPrompt\<close> returns \<^verbatim>\<open>Downloading...\<close> whenever \<open>downloading\<close> is
  true; when it is false and \<open>availableVersion\<close> is a string \<open>v\<close>, it returns
  \<^verbatim>\<open>Download\<close>, a space and \<open>v\<close> (\<^verbatim>\<open>Download 1.3.0\<close> for \<^verbatim>\<open>1.3.0\<close>, and an empty
  suffix for the empty string); when \<open>availableVersion\<close> is still unset, the suffix is
  the text \<^verbatim>\<open>null\<close> that string concatenation makes of it.
\<close>

theorem downloadPrompt_cases:
  "(downloading s \<longrightarrow> downloadPrompt s = ''Downloading...'') \<and>
   (\<forall>v. \<not> downloading s \<and> availableVersion s = Str v \<longrightarrow>
      downloadPrompt s = ''Download '' @ v) \<and>
   (\<not> downloading s \<and> availableVersion s = Null \<longrightarrow>
      downloadPrompt s = ''Download null'')"
  by (simp add: downloadPrompt_def)

theorem downloadPrompt_cases_witness:
  "downloadPrompt \<lparr>downloading = True, availableVersion = Str ''1.3.0'',
     currentVersion = Null\<rparr> = ''Downloading...'' \<and>
   downloadPrompt \<lparr>downloading = False, availableVersion = Str ''1.3.0'',
     currentVersion = Null\<rparr> = ''Download 1.3.0'' \<and>
   downloadPrompt \<lparr>downloading = False, availableVersion = Null,
     currentVersion = Null\<rparr> = ''Download null''"
  using
    downloadPrompt_cases [of "\<lparr>downloading = True, availableVersion = Str ''1.3.0'',
       currentVersion = Null\<rparr>"]
    downloadPrompt_cases [of "\<lparr>downloading = False, availableVersion = Str ''1.3.0'',
       currentVersion = Null\<rparr>"]
    downloadPrompt_cases [of "\<lparr>downloading = False, availableVersion = Null,
       currentVersion = Null\<rparr>"]
  by simp

subsection \<open>The scan of the downloads directory\<close>

text \<open>
  C6. The filter of line 218 keeps exactly the directory entries that are, from the first
  character to the last, \<^verbatim>\<open>mcu_v<major>.<minor>.<patch>.img.zip\<close> with three non-empty
  runs of digits: a name with two components only, in another case, or with the pattern
  as a proper part of it is dropped.
\<close>

theorem firmware_filter_exact:
  "filter is_mcu_image dirs = filter firmware_name dirs \<and>
   mcuImages dirs = rev (sort (filter firmware_name dirs)) \<and>
   set (mcuImages dirs) = {file \<in> set dirs. firmware_name file} \<and>
   is_mcu_image ''mcu_v1.2.3.img.zip'' \<and>
   \<not> is_mcu_image ''mcu_v1.2.img.zip'' \<and>
   \<not> is_mcu_image ''MCU_V1.2.3.IMG.ZIP'' \<and>
   \<not> is_mcu_image ''Mcu_v1.2.3.img.zip'' \<and>
   \<not> is_mcu_image ''old_mcu_v1.2.3.img.zip'' \<and>
   \<not> is_mcu_image ''mcu_v1.2.3.img.zip.part'' \<and>
   \<not> is_mcu_image ''mcu_v1.2.x.img.zip''"
proof -
  have f: "filter is_mcu_image dirs = filter firmware_name dirs"
    by (rule filter_cong) (simp_all add: is_mcu_image_iff)
  have s: "set (mcuImages dirs) = {file \<in> set dirs. firmware_name file}"
    unfolding mcuImages_def f by simp
  have e: "is_mcu_image ''mcu_v1.2.3.img.zip'' \<and>
   \<not> is_mcu_image ''mcu_v1.2.img.zip'' \<and>
   \<not> is_mcu_image ''MCU_V1.2.3.IMG.ZIP'' \<and>
   \<not> is_mcu_image ''Mcu_v1.2.3.img.zip'' \<and>
   \<not> is_mcu_image ''old_mcu_v1.2.3.img.zip'' \<and>
   \<not> is_mcu_image ''mcu_v1.2.3.img.zip.part'' \<and>
   \<not> is_mcu_image ''mcu_v1.2.x.img.zip''"
    by (simp add: is_mcu_image_def mcu_pattern_def is_digit_def)
  show ?thesis
    using f s e unfolding mcuImages_def by simp
qed

lemma currentVersion_checkForNewImage:
  assumes "mcuImages dirs = file # rest"
  shows "currentVersion (fst (checkForNewImage env allowDownload json (Inr dirs) s))
         = Str (latestDownload file)"
  using assms
  by (simp add: checkForNewImage_def Let_def
      split: option.splits sum.splits list.splits)

text \<open>
  C5, as the claim states it, fails: with \<^verbatim>\<open>mcu_v1.2.3.img.zip\<close> in the downloads
  directory, the version recorded is \<^verbatim>\<open>v1.2.3\<close>, not \<^verbatim>\<open>1.2.3\<close>: line 223 removes
  \<^verbatim>\<open>mcu_\<close> and leaves the \<^verbatim>\<open>v\<close>.
\<close>

theorem currentVersion_prefix_counterexample:
  "currentVersion
     (fst (checkForNewImage sample_env False None (Inr [''mcu_v1.2.3.img.zip'']) init_ctrl))
     = Str ''v1.2.3'' \<and>
   currentVersion
     (fst (checkForNewImage sample_env False None (Inr [''mcu_v1.2.3.img.zip'']) init_ctrl))
     \<noteq> Str ''1.2.3''"
proof -
  have m: "mcuImages [''mcu_v1.2.3.img.zip''] = [''mcu_v1.2.3.img.zip'']"
    by (simp add: mcuImages_def is_mcu_image_def mcu_pattern_def is_digit_def)
  have l: "latestDownload ''mcu_v1.2.3.img.zip'' = ''v1.2.3''"
    by (simp add: latestDownload_def)
  show ?thesis
    unfolding currentVersion_checkForNewImage [OF m] l by simp
qed

text \<open>
  C5, amended. When the newest matching firmware file of the downloads directory is
  \<^verbatim>\<open>mcu_v<major>.<minor>.<patch>.img.zip\<close>, the \<open>currentVersion\<close> that \<open>checkForNewImage\<close>
  records is the letter \<^verbatim>\<open>v\<close> followed by \<^verbatim>\<open><major>.<minor>.<patch>\<close>, with nothing
  after it.
\<close>

theorem currentVersion_of_newest:
  assumes "mcuImages dirs =
             (''mcu_v'' @ major @ ''.'' @ minor @ ''.'' @ patch @ ''.img.zip'') # rest"
    and "major \<noteq> []" and "list_all is_digit major"
    and "minor \<noteq> []" and "list_all is_digit minor"
    and "patch \<noteq> []" and "list_all is_digit patch"
  shows "currentVersion (fst (checkForNewImage env allowDownload json (Inr dirs) s))
         = Str (''v'' @ major @ ''.'' @ minor @ ''.'' @ patch)"
  unfolding currentVersion_checkForNewImage [OF assms(1)]
    latestDownload_firmware [OF assms(2-7)]
  by (rule refl)

theorem currentVersion_of_newest_witness:
  "mcuImages [''notes.txt'', ''mcu_v1.0.0.img.zip'', ''mcu_v1.2.3.img.zip''] =
     (''mcu_v'' @ ''1'' @ ''.'' @ ''2'' @ ''.'' @ ''3'' @ ''.img.zip'') # [''mcu_v1.0.0.img.zip''] \<and>
   list_all is_digit ''1'' \<and> list_all is_digit ''2'' \<and> list_all is_digit ''3'' \<and>
   currentVersion
     (fst (checkForNewImage sample_env False None
        (Inr [''notes.txt'', ''mcu_v1.0.0.img.zip'', ''mcu_v1.2.3.img.zip'']) init_ctrl))
     = Str ''v1.2.3''"
proof -
  have m: "mcuImages [''notes.txt'', ''mcu_v1.0.0.img.zip'', ''mcu_v1.2.3.img.zip''] =
     (''mcu_v'' @ ''1'' @ ''.'' @ ''2'' @ ''.'' @ ''3'' @ ''.img.zip'') # [''mcu_v1.0.0.img.zip'']"
    by code_simp
  have d: "list_all is_digit ''1''" "list_all is_digit ''2''" "list_all is_digit ''3''"
    by (simp_all add: is_digit_def)
  have n: "''1'' \<noteq> []" "''2'' \<noteq> []" "''3'' \<noteq> []"
    by simp_all
  show ?thesis
    using m d
      currentVersion_of_newest [OF m n(1) d(1) n(2) d(2) n(3) d(3),
        of sample_env False None init_ctrl]
    by simp
qed




subsection \<open>The published extension lists\<close>

lemma uniq_distinct: "distinct xs \<Longrightarrow> uniq xs = xs"
  by (simp add: uniq_def distinct_remdups_id)

text \<open>
  C10. The two published lists split the supported extensions: the main list is
  \<^verbatim>\<open>img\<close>, \<^verbatim>\<open>iso\<close>, \<^verbatim>\<open>zip\<close> cut down to those that \<open>getAllExtensions\<close> has, the extra
  list is what remains of \<open>getAllExtensions\<close>, sorted ascending, the two share no
  element, and together they hold exactly the elements of \<open>getAllExtensions\<close>.
\<close>

theorem extension_lists_partition:
  "mainSupportedExtensions env =
     filter (\<lambda>e. e \<in> set (getAllExtensions env)) [''img'', ''iso'', ''zip''] \<and>
   set (mainSupportedExtensions env) =
     {''img'', ''iso'', ''zip''} \<inter> set (getAllExtensions env) \<and>
   extraSupportedExtensions env =
     sort (filter (\<lambda>e. e \<notin> {''img'', ''iso'', ''zip''}) (getAllExtensions env)) \<and>
   sorted (extraSupportedExtensions env) \<and>
   set (mainSupportedExtensions env) \<inter> set (extraSupportedExtensions env) = {} \<and>
   set (mainSupportedExtensions env) \<union> set (extraSupportedExtensions env) =
     set (getAllExtensions env)"
proof -
  let ?all = "getAllExtensions env"
  have "distinct (filter (\<lambda>e. e \<in> set ?all) [''img'', ''iso'', ''zip''])"
    by (rule distinct_filter) simp
  then have main: "mainSupportedExtensions env =
      filter (\<lambda>e. e \<in> set ?all) [''img'', ''iso'', ''zip'']"
    unfolding mainSupportedExtensions_def intersection_def by (rule uniq_distinct)
  have mset: "set (mainSupportedExtensions env) = {''img'', ''iso'', ''zip''} \<inter> set ?all"
    unfolding main by auto
  have "filter (\<lambda>e. e \<notin> set (mainSupportedExtensions env)) ?all =
        filter (\<lambda>e. e \<notin> {''img'', ''iso'', ''zip''}) ?all"
    by (rule filter_cong) (simp_all add: mset)
  then have extra: "extraSupportedExtensions env =
      sort (filter (\<lambda>e. e \<notin> {''img'', ''iso'', ''zip''}) ?all)"
    unfolding extraSupportedExtensions_def difference_def by simp
  have srt: "sorted (extraSupportedExtensions env)"
    unfolding extra by (rule sorted_sort)
  have eset: "set (extraSupportedExtensions env) = set ?all - {''img'', ''iso'', ''zip''}"
    unfolding extra by auto
  have disj: "set (mainSupportedExtensions env) \<inter> set (extraSupportedExtensions env) = {}"
    unfolding mset eset by blast
  have un: "set (mainSupportedExtensions env) \<union> set (extraSupportedExtensions env) = set ?all"
    unfolding mset eset by blast
  show ?thesis
    using main mset extra srt disj un by (intro conjI)
qed

subsection \<open>selectImage\<close>

text \<open>
  C8. \<open>selectImage\<close> runs its checks in one order and the first that applies wins. An
  unsupported path is rejected outright: the error dialog and the analytics event are
  the only effects, the store is untouched and no modal appears. Otherwise at most one
  modal is displayed; when the path looks like a Windows image and the image has no
  partition table as well, the modal is the one with the Windows warning (the warning
  texts of the messages module being non-empty strings); without the Windows look, a
  missing partition table brings up its own warning, and an image with neither brings
  up no modal.
\<close>

theorem selectImage_check_order:
  "(\<not> isSupportedImage env (path img) \<longrightarrow>
      selectImage env modal img st =
        (st, [ShowError ''Invalid image'' img, LogEvent ''Invalid image'' (Some img)])) \<and>
   length (filter is_modal (snd (selectImage env modal img st))) \<le> 1 \<and>
   (isSupportedImage env (path img) \<and> looksLikeWindowsImage env (path img) \<and>
    \<not> hasMBR img \<and> warn_looksLikeWindowsImage env \<noteq> [] \<longrightarrow>
      filter is_modal (snd (selectImage env modal img st)) =
        [DisplayModal ''Change'' ''Continue'' (warn_looksLikeWindowsImage env)]) \<and>
   (isSupportedImage env (path img) \<and> \<not> looksLikeWindowsImage env (path img) \<and>
    \<not> hasMBR img \<and> warn_missingPartitionTable env \<noteq> [] \<longrightarrow>
      filter is_modal (snd (selectImage env modal img st)) =
        [DisplayModal ''Change'' ''Continue'' (warn_missingPartitionTable env)]) \<and>
   (isSupportedImage env (path img) \<and> \<not> looksLikeWindowsImage env (path img) \<and>
    hasMBR img \<longrightarrow>
      filter is_modal (snd (selectImage env modal img st)) = [])"
  by (cases modal)
    (simp_all add: selectImage_def warning_message_def reselectImage_def)

theorem selectImage_check_order_witness:
  "\<not> isSupportedImage sample_env ''notes.txt'' \<and>
   selectImage sample_env (Inr False)
     \<lparr>path = ''notes.txt'', hasMBR = True, logo = Undefined, bmap = Undefined\<rparr> None =
     (None,
      [ShowError ''Invalid image''
         \<lparr>path = ''notes.txt'', hasMBR = True, logo = Undefined, bmap = Undefined\<rparr>,
       LogEvent ''Invalid image''
         (Some \<lparr>path = ''notes.txt'', hasMBR = True, logo = Undefined, bmap = Undefined\<rparr>)]) \<and>
   isSupportedImage sample_env ''win10.iso'' \<and> looksLikeWindowsImage sample_env ''win10.iso'' \<and>
   warn_looksLikeWindowsImage sample_env \<noteq> [] \<and>
   filter is_modal
     (snd (selectImage sample_env (Inr False)
        \<lparr>path = ''win10.iso'', hasMBR = False, logo = Undefined, bmap = Undefined\<rparr> None)) =
     [DisplayModal ''Change'' ''Continue'' ''looks like a Windows image''] \<and>
   isSupportedImage sample_env ''data.img'' \<and> \<not> looksLikeWindowsImage sample_env ''data.img'' \<and>
   warn_missingPartitionTable sample_env \<noteq> [] \<and>
   filter is_modal
     (snd (selectImage sample_env (Inr False)
        \<lparr>path = ''data.img'', hasMBR = False, logo = Undefined, bmap = Undefined\<rparr> None)) =
     [DisplayModal ''Change'' ''Continue'' ''missing partition table''] \<and>
   filter is_modal
     (snd (selectImage sample_env (Inr False)
        \<lparr>path = ''data.img'', hasMBR = True, logo = Undefined, bmap = Undefined\<rparr> None)) = []"
proof -
  have e: "\<not> isSupportedImage sample_env ''notes.txt''"
    "isSupportedImage sample_env ''win10.iso''" "looksLikeWindowsImage sample_env ''win10.iso''"
    "isSupportedImage sample_env ''data.img''" "\<not> looksLikeWindowsImage sample_env ''data.img''"
    "warn_looksLikeWindowsImage sample_env = ''looks like a Windows image''"
    "warn_missingPartitionTable sample_env = ''missing partition table''"
    by (simp_all add: sample_env_def)
  show ?thesis
    using e
      selectImage_check_order [of sample_env
        "\<lparr>path = ''notes.txt'', hasMBR = True, logo = Undefined, bmap = Undefined\<rparr>"
        "Inr False" None]
      selectImage_check_order [of sample_env
        "\<lparr>path = ''win10.iso'', hasMBR = False, logo = Undefined, bmap = Undefined\<rparr>"
        "Inr False" None]
      selectImage_check_order [of sample_env
        "\<lparr>path = ''data.img'', hasMBR = False, logo = Undefined, bmap = Undefined\<rparr>"
        "Inr False" None]
      selectImage_check_order [of sample_env
        "\<lparr>path = ''data.img'', hasMBR = True, logo = Undefined, bmap = Undefined\<rparr>"
        "Inr False" None]
    by simp
qed

text \<open>
  What the answer to the modal does to the store, for an image that brings the modal up
  (no partition table, or the look of a Windows image; the format supported and the
  warning texts non-empty): on true the store keeps what it held and the effects end
  with those of \<open>reselectImage\<close> and the report of its exception; on false the store
  holds the new image, as \<open>setImage\<close> leaves it, whatever it held before.
\<close>

lemma selectImage_modal_answer:
  assumes "isSupportedImage env (path img)"
    and "looksLikeWindowsImage env (path img) \<or> \<not> hasMBR img"
    and "warn_looksLikeWindowsImage env \<noteq> []"
    and "warn_missingPartitionTable env \<noteq> []"
  shows "fst (selectImage env (Inr True) img st) = st \<and>
    (\<exists>es. snd (selectImage env (Inr True) img st) =
            es @ fst (reselectImage st) @ [ReportException TypeError] \<and>
          length (filter is_modal es) = 1 \<and> is_modal (last es)) \<and>
    fst (selectImage env (Inr False) img st) = setImage img st \<and>
    fst (selectImage env (Inr False) img st) = Some img \<and>
    filter is_modal (snd (selectImage env (Inr False) img st)) \<noteq> []"
  using assms
  by (auto simp: selectImage_def warning_message_def reselectImage_def setImage_def
      getImage_def)

text \<open>
  C9 holds of the store and fails of the re-selection. With \<^verbatim>\<open>old.img\<close> selected, the
  supported image \<^verbatim>\<open>data.img\<close> without a partition table brings up the modal; on the
  answer true the store still holds \<^verbatim>\<open>old.img\<close>, and \<open>reselectImage\<close> is entered, but
  after its analytics event the call of line 298 to \<^verbatim>\<open>openImageSelector\<close>, which lines
  262 to 283 leave commented out, throws a TypeError. The exception reporter receives
  it and that is the last effect: no picker opens and no re-selection takes place. On
  the answer false the store holds \<^verbatim>\<open>data.img\<close>.
\<close>

theorem reselect_throws_instead_of_reopening:
  "selectImage sample_env (Inr True)
     \<lparr>path = ''data.img'', hasMBR = False, logo = Undefined, bmap = Undefined\<rparr>
     (Some \<lparr>path = ''old.img'', hasMBR = True, logo = Undefined, bmap = Undefined\<rparr>) =
     (Some \<lparr>path = ''old.img'', hasMBR = True, logo = Undefined, bmap = Undefined\<rparr>,
      [LogEvent ''Missing partition table''
         (Some \<lparr>path = ''data.img'', hasMBR = False, logo = Undefined, bmap = Undefined\<rparr>),
       DisplayModal ''Change'' ''Continue'' ''missing partition table'',
       LogEvent ''Reselect image''
         (Some \<lparr>path = ''old.img'', hasMBR = True, logo = Undefined, bmap = Undefined\<rparr>),
       ReportException TypeError]) \<and>
   snd (reselectImage
     (Some \<lparr>path = ''old.img'', hasMBR = True, logo = Undefined, bmap = Undefined\<rparr>)) =
     Inl TypeError \<and>
   fst (selectImage sample_env (Inr False)
     \<lparr>path = ''data.img'', hasMBR = False, logo = Undefined, bmap = Undefined\<rparr>
     (Some \<lparr>path = ''old.img'', hasMBR = True, logo = Undefined, bmap = Undefined\<rparr>)) =
     Some \<lparr>path = ''data.img'', hasMBR = False, logo = Undefined, bmap = Undefined\<rparr>"
  by (simp add: selectImage_def warning_message_def reselectImage_def setImage_def
      getImage_def sample_env_def)

subsection \<open>checkForNewImage and the download flag\<close>

text \<open>
  A reply without a release (the \<^verbatim>\<open>null\<close> of a failed request, no \<^verbatim>\<open>assets\<close> member or
  an empty \<^verbatim>\<open>assets\<close> array) never leads to a download request: the argument of the send
  throws before the send.
\<close>

lemma no_request_without_release:
  assumes "json = None \<or> (\<exists>r. json = Some r \<and> (assets r = None \<or> assets r = Some []))"
  shows "download_requests (snd (checkForNewImage env allowDownload json readdir s)) = []"
  using assms
  by (auto simp: checkForNewImage_def Let_def download_requests_def asset_url_def
      split: sum.splits list.splits)

text \<open>
  C1 holds of the requests and fails of the flag. On the freshly constructed controller,
  with the request failed (\<^verbatim>\<open>json\<close> is \<^verbatim>\<open>null\<close>), no firmware file in the downloads
  directory and \<open>allowDownload\<close> true, line 234 sets \<open>downloading\<close> and the argument of
  the send of line 235 throws: no request leaves, the flag is true, and since no
  \<^verbatim>\<open>download-mcu\<close> message will answer a request that was never made, the prompt stays
  \<^verbatim>\<open>Downloading...\<close>.
\<close>

theorem downloading_set_without_request:
  "\<not> downloading init_ctrl \<and>
   checkForNewImage sample_env True None (Inr []) init_ctrl =
     (init_ctrl\<lparr>downloading := True\<rparr>, [ConsoleError TypeError]) \<and>
   download_requests (snd (checkForNewImage sample_env True None (Inr []) init_ctrl)) = [] \<and>
   downloading (fst (checkForNewImage sample_env True None (Inr []) init_ctrl)) \<and>
   downloadPrompt (fst (checkForNewImage sample_env True None (Inr []) init_ctrl)) =
     ''Downloading...'' \<and>
   downloading
     (fst (run sample_env [Reply True None (Inr []), Reply False None (Inr [])] init_ctrl))"
proof -
  have m: "mcuImages [] = []"
    by (simp add: mcuImages_def)
  have c: "checkForNewImage env True None (Inr []) s =
      (s\<lparr>downloading := True\<rparr>, [ConsoleError TypeError])" for env s
    by (simp add: checkForNewImage_def m asset_url_def)
  have d: "checkForNewImage env False None (Inr []) s = (s, [])" for env s
    by (simp add: checkForNewImage_def m)
  show ?thesis
    by (simp add: c d download_requests_def downloadPrompt_def init_ctrl_def)
qed

text \<open>
  C3, as the claim states it, fails: nothing in \<open>checkForNewImage\<close> reads \<open>downloading\<close>.
  With release \<^verbatim>\<open>v1.3.0\<close> published and \<^verbatim>\<open>mcu_v1.2.0.img.zip\<close> on disk, a first check
  with \<open>allowDownload\<close> sets the flag and sends a request; a second one, run in that
  state before any \<^verbatim>\<open>download-mcu\<close> message, sends another: two requests in all.
\<close>

theorem second_check_requests_again_counterexample:
  "downloading (fst (checkForNewImage sample_env True sample_release sample_dirs init_ctrl)) \<and>
   download_requests
     (snd (checkForNewImage sample_env True sample_release sample_dirs
        (fst (checkForNewImage sample_env True sample_release sample_dirs init_ctrl)))) =
     [IpcSend ''download-mcu'' (Str ''https://example.org/mcu_v1.3.0.img.zip'')] \<and>
   length (download_requests
     (snd (run sample_env
        [Reply True sample_release sample_dirs, Reply True sample_release sample_dirs]
        init_ctrl))) = 2"
proof -
  have m: "mcuImages [''notes.txt'', ''mcu_v1.2.0.img.zip''] = [''mcu_v1.2.0.img.zip'']"
    by code_simp
  have l: "latestDownload ''mcu_v1.2.0.img.zip'' = ''v1.2.0''"
    by (simp add: latestDownload_def)
  have g: "sample_compare (Str ''v1.3.0'') (Str ''v1.2.0'') = Inr 1"
    by code_simp
  have e: "semver_compare sample_env = sample_compare"
    by (simp add: sample_env_def)
  have c: "checkForNewImage sample_env True sample_release sample_dirs s =
      (s\<lparr>availableVersion := Str ''v1.3.0'', currentVersion := Str ''v1.2.0'',
         downloading := True\<rparr>,
       [SelectImageByPath
          (path_join sample_env (downloads_path sample_env) ''mcu_v1.2.0.img.zip''),
        IpcSend ''download-mcu'' (Str ''https://example.org/mcu_v1.3.0.img.zip'')])" for s
    by (simp add: checkForNewImage_def sample_release_def sample_dirs_def m l e g
        updateAvailable_def asset_url_def)
  show ?thesis
    by (simp add: c download_requests_def)
qed

text \<open>
  C3, amended. One invocation of \<open>checkForNewImage\<close> sends at most one download request,
  and with \<open>allowDownload\<close> false (the default, which is what the constructor and the
  \<^verbatim>\<open>download-mcu\<close> handler pass) it sends none and leaves \<open>downloading\<close> as it was,
  in every state. The flag is never read: what an invocation sends is the same whether
  a download is in flight or not.
\<close>

theorem check_requests_ignore_downloading:
  "download_requests (snd (checkForNewImage env False json readdir s)) = [] \<and>
   downloading (fst (checkForNewImage env False json readdir s)) = downloading s \<and>
   length (download_requests (snd (checkForNewImage env allowDownload json readdir s))) \<le> 1 \<and>
   snd (checkForNewImage env allowDownload json readdir (s\<lparr>downloading := d\<rparr>)) =
     snd (checkForNewImage env allowDownload json readdir s)"
proof -
  have 1: "download_requests (snd (checkForNewImage env False json readdir s)) = []"
    by (auto simp: checkForNewImage_def Let_def download_requests_def
        split: sum.splits list.splits option.splits)
  have 2: "downloading (fst (checkForNewImage env False json readdir s)) = downloading s"
    by (auto simp: checkForNewImage_def Let_def
        split: sum.splits list.splits option.splits)
  have 3: "length (download_requests
      (snd (checkForNewImage env allowDownload json readdir s))) \<le> 1"
    by (auto simp: checkForNewImage_def Let_def download_requests_def
        split: sum.splits list.splits option.splits)
  have 4: "snd (checkForNewImage env allowDownload json readdir (s\<lparr>downloading := d\<rparr>)) =
     snd (checkForNewImage env allowDownload json readdir s)"
    by (auto simp: checkForNewImage_def Let_def updateAvailable_def
        split: sum.splits list.splits option.splits)
  show ?thesis
    using 1 2 3 4 by (intro conjI)
qed

end
